theory Spec2Isabelle
  imports Main
begin

section \<open>The ceph-nfs charm: event handlers of \<open>CephNfsCharm\<close> (src/charm.py)\<close>

text \<open>
  The charm is a set of event handlers. Each handler reads the persisted flags
  (\<open>self._stored\<close>) and the facts supplied by the framework (leadership, relation
  state, configuration), calls external programs and collaborators, and may defer its event.
  The handlers are embedded as functions from the facts (\<open>world\<close>) and the stored flags to
  an \<open>outcome\<close>: the flags afterwards, the list of everything the handler did to the outside
  in order, and the exception that left the handler, if any.
\<close>

subsection \<open>Data\<close>

text \<open>\<open>self._stored\<close>, with the defaults set in \<open>__init__\<close>.\<close>

record stored_state =
  is_started :: bool
  is_cluster_setup :: bool

definition default_stored :: stored_state where
  "default_stored = \<lparr>is_started = False, is_cluster_setup = False\<rparr>"

text \<open>
  What a handler does to the outside, in program order. The calls on \<open>self.peers\<close>,
  \<open>self.ceph_client\<close>, \<open>GaneshaNfs\<close>, the templating and \<open>update_status\<close> go to
  collaborators whose bodies are not part of charm.py; they are recorded as they are issued.
\<close>

datatype action =
    CheckCall "string list"        \<comment> \<open>\<open>subprocess.check_call(argv)\<close>\<close>
  | Call "string list"             \<comment> \<open>\<open>subprocess.call(argv)\<close>\<close>
  | TmpWrite string string         \<comment> \<open>temporary file name, text written to it\<close>
  | Mkdir string
  | Render string string           \<comment> \<open>\<open>ch_templating.render(source, target, adapters)\<close>\<close>
  | UpdateStatus
  | CreateReplicatedPool string string "string option" "string option" "(string \<times> string) list"
  | RequestCephPermissions string "string list"
  | PeersInitialisedPool           \<comment> \<open>\<open>self.peers.initialised_pool()\<close>\<close>
  | PeersTriggerReload             \<comment> \<open>\<open>self.peers.trigger_reload()\<close>\<close>
  | GaneshaCreateShare string string "int option"
  | LogInfo string
  | LogWarn string
  | LogError string
  | Defer                          \<comment> \<open>\<open>event.defer()\<close>\<close>
  | EventFail string               \<comment> \<open>\<open>event.fail(message)\<close>\<close>
  | SetResults "(string \<times> string option) list"

datatype exn =
    CalledProcessError int "string list"
  | OSError string
  | RenderError string
  | ShareError string

text \<open>
  The facts a handler can read and the answers of the outside world while it runs.
  \<open>pool_initialised\<close> is the latch of the peer relation; it is part of what a unit can
  observe, and no handler of charm.py reads it.
\<close>

record world =
  app_name :: string
  hostname :: string
  config :: "string \<rightharpoonup> string"
  broker_available :: bool
  pools_available :: bool
  is_leader :: bool
  pool_initialised :: bool
  hacluster_related :: bool
  ingress_address :: string
  exit_code :: "string list \<Rightarrow> int"
  tmp_name :: string
  mkdir_fails :: bool
  render_fails :: "string \<Rightarrow> bool"
  bluestore_compression :: "string + (string \<times> string) list"
  action_params :: "string \<rightharpoonup> int"
  ganesha_create_share :: "int option \<Rightarrow> string + string"

record outcome =
  stored :: stored_state
  trace :: "action list"
  raised :: "exn option"

definition start :: "stored_state \<Rightarrow> outcome" where
  "start s = \<lparr>stored = s, trace = [], raised = None\<rparr>"

definition act :: "action \<Rightarrow> outcome \<Rightarrow> outcome" where
  "act a r = r\<lparr>trace := trace r @ [a]\<rparr>"

definition deferred :: "outcome \<Rightarrow> bool" where
  "deferred r = (Defer \<in> set (trace r))"

text \<open>\<open>subprocess.check_call\<close> raises \<open>CalledProcessError\<close> on a non-zero exit status.\<close>

definition check_call :: "world \<Rightarrow> string list \<Rightarrow> outcome \<Rightarrow> outcome" where
  "check_call w argv r =
     (let r' = act (CheckCall argv) r
      in if exit_code w argv = 0 then r'
         else r'\<lparr>raised := Some (CalledProcessError (exit_code w argv) argv)\<rparr>)"

text \<open>\<open>except subprocess.CalledProcessError:\<close> with the given handler body.\<close>

definition except_CalledProcessError :: "outcome \<Rightarrow> (outcome \<Rightarrow> outcome) \<Rightarrow> outcome" where
  "except_CalledProcessError r h =
     (case raised r of
        Some (CalledProcessError c argv) \<Rightarrow> h (r\<lparr>raised := None\<rparr>)
      | _ \<Rightarrow> r)"

subsection \<open>Class constants and properties\<close>

definition CEPH_CONFIG_PATH :: string where "CEPH_CONFIG_PATH = ''/etc/ceph''"
definition GANESHA_CONFIG_PATH :: string where "GANESHA_CONFIG_PATH = ''/etc/ganesha''"
definition CEPH_GANESHA_CONFIG_PATH :: string where
  "CEPH_GANESHA_CONFIG_PATH = CEPH_CONFIG_PATH @ ''/ganesha''"
definition CEPH_CONF :: string where "CEPH_CONF = CEPH_CONFIG_PATH @ ''/ceph.conf''"
definition GANESHA_KEYRING :: string where
  "GANESHA_KEYRING = CEPH_GANESHA_CONFIG_PATH @ ''/ceph.keyring''"
definition GANESHA_CONF :: string where
  "GANESHA_CONF = GANESHA_CONFIG_PATH @ ''/ganesha.conf''"

definition SERVICES :: "string list" where "SERVICES = [''nfs-ganesha'']"

text \<open>The keys of \<open>RESTART_MAP\<close>, in insertion order.\<close>

definition RESTART_MAP_keys :: "string list" where
  "RESTART_MAP_keys = [GANESHA_CONF, CEPH_CONF, GANESHA_KEYRING]"

definition dq :: string where "dq = [CHR 0x22]"

definition CEPH_CAPABILITIES :: "string list" where
  "CEPH_CAPABILITIES =
     [''mgr'', ''allow rw'',
      ''mds'', ''allow *'',
      ''osd'', ''allow rw'',
      ''mon'', ''allow r, '' @
        ''allow command '' @ dq @ ''auth del'' @ dq @ '', '' @
        ''allow command '' @ dq @ ''auth caps'' @ dq @ '', '' @
        ''allow command '' @ dq @ ''auth get'' @ dq @ '', '' @
        ''allow command '' @ dq @ ''auth get-or-create'' @ dq]"

definition config_get :: "world \<Rightarrow> string \<Rightarrow> string option \<Rightarrow> string option" where
  "config_get w key dflt = (case config w key of Some v \<Rightarrow> Some v | None \<Rightarrow> dflt)"

definition pool_name :: "world \<Rightarrow> string" where
  "pool_name w = (case config w ''rbd-pool-name'' of Some v \<Rightarrow> v | None \<Rightarrow> app_name w)"

definition client_name :: "world \<Rightarrow> string" where
  "client_name w = app_name w"

text \<open>\<open>os.path.basename\<close>: what follows the last slash.\<close>

definition basename :: "string \<Rightarrow> string" where
  "basename p = rev (takeWhile (\<lambda>c. c \<noteq> CHR ''/'') (rev p))"

subsection \<open>The command lines\<close>

definition grace_cmd :: "world \<Rightarrow> string \<Rightarrow> string list" where
  "grace_cmd w verb =
     [''ganesha-rados-grace'', ''--userid'', client_name w,
      ''--cephconf'', CEPH_CONF, ''--pool'', pool_name w,
      verb, hostname w]"

definition rados_put_cmd :: "world \<Rightarrow> string \<Rightarrow> string \<Rightarrow> string list" where
  "rados_put_cmd w obj file =
     [''rados'', ''-p'', pool_name w,
      ''-c'', CEPH_CONF,
      ''--id'', client_name w,
      ''put'', obj, file]"

definition put_index_cmd :: "world \<Rightarrow> string list" where
  "put_index_cmd w = rados_put_cmd w ''ganesha-export-index'' ''/dev/null''"

definition put_counter_cmd :: "world \<Rightarrow> string list" where
  "put_counter_cmd w = rados_put_cmd w ''ganesha-export-counter'' (tmp_name w)"

definition restart_cmd :: "string \<Rightarrow> string list" where
  "restart_cmd service_name = [''systemctl'', ''restart'', service_name]"

definition reload_cmd :: "string list" where
  "reload_cmd = [''killall'', ''-HUP'', ''ganesha.nfsd'']"

subsection \<open>The handlers\<close>

definition request_ceph_pool :: "world \<Rightarrow> stored_state \<Rightarrow> outcome" where
  "request_ceph_pool w s =
     (if \<not> broker_available w then
        act (LogInfo ''Cannot request ceph setup at this time'') (start s)
      else
        (case bluestore_compression w of
           Inl e \<Rightarrow>
             act (LogWarn (''Caught ValueError, invalid value provided for '' @
                           ''configuration?: '' @ dq @ e @ dq)) (start s)
         | Inr bcomp_kwargs \<Rightarrow>
             (let weight = config_get w ''ceph-pool-weight'' None;
                  replicas = config_get w ''ceph-osd-replication-count'' None;
                  r1 = act (LogInfo ''Requesting replicated pool'') (start s);
                  r2 = act (CreateReplicatedPool (pool_name w) ''ganesha'' replicas weight
                              bcomp_kwargs) r1;
                  r3 = act (LogInfo ''Requesting permissions'') r2
              in act (RequestCephPermissions (client_name w) CEPH_CAPABILITIES) r3)))"

text \<open>
  The nested function of \<open>render_config\<close>. \<open>rfuncs\<close> stays the empty dictionary, so
  \<open>render_config\<close> never hands it to \<open>restart_on_change\<close>.
\<close>

definition daemon_reload_and_restart :: "world \<Rightarrow> string \<Rightarrow> outcome \<Rightarrow> outcome" where
  "daemon_reload_and_restart w service_name r =
     (let r1 = check_call w [''systemctl'', ''daemon-reload''] r
      in if raised r1 \<noteq> None then r1
         else check_call w (restart_cmd service_name) r1)"

text \<open>
  The loop of \<open>_render_configs\<close>: one \<open>render\<close> per key of \<open>RESTART_MAP\<close>; an exception of
  a render ends the loop and leaves the handler. The restarts that the decorator
  \<open>restart_on_change\<close> issues afterwards happen inside charmhelpers and are not recorded.
\<close>

fun render_configs :: "world \<Rightarrow> string list \<Rightarrow> outcome \<Rightarrow> outcome" where
  "render_configs w [] r = r"
| "render_configs w (config_file # rest) r =
     (let r1 = act (Render (basename config_file) config_file) r
      in if render_fails w config_file then r1\<lparr>raised := Some (RenderError config_file)\<rparr>
         else render_configs w rest r1)"

definition render_config :: "world \<Rightarrow> stored_state \<Rightarrow> outcome" where
  "render_config w s =
     (if \<not> pools_available w then
        act Defer (act (LogInfo ''Defering setup'') (start s))
      else
        (let r1 = act (Mkdir CEPH_GANESHA_CONFIG_PATH) (start s)
         in if mkdir_fails w then r1\<lparr>raised := Some (OSError CEPH_GANESHA_CONFIG_PATH)\<rparr>
            else
              (let r2 = act (LogInfo ''Rendering config'') r1;
                   r3 = render_configs w RESTART_MAP_keys r2
               in if raised r3 \<noteq> None then r3
                  else
                    (let r4 = act (LogInfo ''Setting started state'') r3;
                         r5 = r4\<lparr>stored := (stored r4)\<lparr>is_started := True\<rparr>\<rparr>;
                         r6 = act UpdateStatus r5
                     in act (LogInfo ''on_pools_available: status updated'') r6))))"

definition on_departing :: "world \<Rightarrow> stored_state \<Rightarrow> outcome" where
  "on_departing w s =
     (let r1 = check_call w (grace_cmd w ''remove'') (start s)
      in if raised r1 \<noteq> None then r1
         else r1\<lparr>stored := (stored r1)\<lparr>is_cluster_setup := False\<rparr>\<rparr>)"

text \<open>The body of the \<open>except\<close> clause of \<open>setup_ganesha\<close>.\<close>

definition setup_failed :: "outcome \<Rightarrow> outcome" where
  "setup_failed r = act Defer (act (LogError ''Failed to setup ganesha index object'') r)"

definition setup_ganesha :: "world \<Rightarrow> stored_state \<Rightarrow> outcome" where
  "setup_ganesha w s =
     (let r1 =
        (if \<not> is_cluster_setup s then
           (let r = check_call w (grace_cmd w ''add'') (start s)
            in if raised r \<noteq> None then r
               else r\<lparr>stored := (stored r)\<lparr>is_cluster_setup := True\<rparr>\<rparr>)
         else start s)
      in if raised r1 \<noteq> None then r1
         else if \<not> is_leader w then r1
         else
           (let r2 = check_call w (put_index_cmd w) r1
            in if raised r2 \<noteq> None then except_CalledProcessError r2 setup_failed
               else
                 (let r3 = act (TmpWrite (tmp_name w) ''1000'') r2;
                      r4 = check_call w (put_counter_cmd w) r3
                  in if raised r4 \<noteq> None then except_CalledProcessError r4 setup_failed
                     else act PeersInitialisedPool r4)))"

definition on_pool_initialised :: "world \<Rightarrow> stored_state \<Rightarrow> outcome" where
  "on_pool_initialised w s =
     (let r1 = check_call w (restart_cmd ''nfs-ganesha'') (start s)
      in if raised r1 \<noteq> None then
           except_CalledProcessError r1
             (\<lambda>r. act Defer (act (LogError ''Failed torestart nfs-ganesha'') r))
         else r1)"

text \<open>\<open>subprocess.call\<close> returns the exit status, which the handler drops.\<close>

definition on_reload_nonce :: "world \<Rightarrow> stored_state \<Rightarrow> outcome" where
  "on_reload_nonce w s =
     act (Call reload_cmd)
       (act (LogInfo ''Reloading Ganesha after nonce triggered reload'') (start s))"

definition access_address :: "world \<Rightarrow> string option" where
  "access_address w =
     (if hacluster_related w then config_get w ''vip'' None
      else Some (ingress_address w))"

definition create_share_action :: "world \<Rightarrow> stored_state \<Rightarrow> outcome" where
  "create_share_action w s =
     (if \<not> is_leader w then
        act (EventFail ''Share creation needs to be run from the application leader'') (start s)
      else
        (let share_size = action_params w ''size'';
             r1 = act (GaneshaCreateShare (client_name w) (pool_name w) share_size) (start s)
         in case ganesha_create_share w share_size of
              Inl e \<Rightarrow> r1\<lparr>raised := Some (ShareError e)\<rparr>
            | Inr export_path \<Rightarrow>
                (let r2 = act PeersTriggerReload r1
                 in act (SetResults [(''message'', Some ''Share created''),
                                     (''path'', Some export_path),
                                     (''ip'', access_address w)]) r2)))"

subsection \<open>The observers registered in \<open>__init__\<close>\<close>

datatype fact =
    BrokerAvailable | PoolsAvailable | ConfigChanged | UpgradeCharm
  | PoolInitialised | Departing | ReloadNonce | CreateShareAction

datatype handler =
    RequestCephPool | RenderConfig | SetupGanesha | OnPoolInitialised
  | OnDeparting | OnReloadNonce | CreateShare

text \<open>The handlers observing each event, in the order of the \<open>observe\<close> calls.\<close>

fun observers :: "fact \<Rightarrow> handler list" where
  "observers BrokerAvailable = [RequestCephPool]"
| "observers PoolsAvailable = [RenderConfig, SetupGanesha]"
| "observers ConfigChanged = [RequestCephPool]"
| "observers UpgradeCharm = [RenderConfig]"
| "observers PoolInitialised = [OnPoolInitialised]"
| "observers Departing = [OnDeparting]"
| "observers ReloadNonce = [OnReloadNonce]"
| "observers CreateShareAction = [CreateShare]"

fun run_handler :: "handler \<Rightarrow> world \<Rightarrow> stored_state \<Rightarrow> outcome" where
  "run_handler RequestCephPool = request_ceph_pool"
| "run_handler RenderConfig = render_config"
| "run_handler SetupGanesha = setup_ganesha"
| "run_handler OnPoolInitialised = on_pool_initialised"
| "run_handler OnDeparting = on_departing"
| "run_handler OnReloadNonce = on_reload_nonce"
| "run_handler CreateShare = create_share_action"

text \<open>
  Delivering a fact runs its observers one after the other on the same stored flags; an
  exception that leaves a handler ends the delivery.
\<close>

fun run_handlers :: "handler list \<Rightarrow> world \<Rightarrow> outcome \<Rightarrow> outcome" where
  "run_handlers [] w r = r"
| "run_handlers (h # hs) w r =
     (if raised r \<noteq> None then r
      else
        (let r' = run_handler h w (stored r)
         in run_handlers hs w
              \<lparr>stored = stored r', trace = trace r @ trace r', raised = raised r'\<rparr>))"

definition deliver :: "fact \<Rightarrow> world \<Rightarrow> stored_state \<Rightarrow> outcome" where
  "deliver f w s = run_handlers (observers f) w (start s)"

subsection \<open>Vocabulary of the properties\<close>

text \<open>The first \<open>if\<close> of \<open>setup_ganesha\<close>: what it issues, and whether it ends without raising.\<close>

definition join_calls :: "world \<Rightarrow> stored_state \<Rightarrow> action list" where
  "join_calls w s = (if is_cluster_setup s then [] else [CheckCall (grace_cmd w ''add'')])"

definition joined :: "world \<Rightarrow> stored_state \<Rightarrow> bool" where
  "joined w s = (is_cluster_setup s \<or> exit_code w (grace_cmd w ''add'') = 0)"

text \<open>A bootstrap write is one of the two \<open>rados put\<close> calls.\<close>

definition attempts_bootstrap :: "world \<Rightarrow> outcome \<Rightarrow> bool" where
  "attempts_bootstrap w r =
     (CheckCall (put_index_cmd w) \<in> set (trace r) \<or> CheckCall (put_counter_cmd w) \<in> set (trace r))"

text \<open>\<open>x\<close> occurs in the list, and no \<open>y\<close> occurs up to the first \<open>x\<close>.\<close>

fun occurs_before :: "'a \<Rightarrow> 'a \<Rightarrow> 'a list \<Rightarrow> bool" where
  "occurs_before x y [] = False"
| "occurs_before x y (a # as) =
     (if a = y then False else if a = x then True else occurs_before x y as)"

fun is_render :: "action \<Rightarrow> bool" where
  "is_render (Render src tgt) = True"
| "is_render _ = False"

definition renders :: "outcome \<Rightarrow> bool" where
  "renders r = list_ex is_render (trace r)"

subsection \<open>Concrete units\<close>

definition all_succeed :: "string list \<Rightarrow> int" where "all_succeed argv = 0"
definition all_fail :: "string list \<Rightarrow> int" where "all_fail argv = 1"
definition counter_put_fails :: "string list \<Rightarrow> int" where
  "counter_put_fails argv = (if ''ganesha-export-counter'' \<in> set argv then 1 else 0)"
definition restart_fails :: "string list \<Rightarrow> int" where
  "restart_fails argv = (if ''restart'' \<in> set argv then 1 else 0)"
definition no_render_fails :: "string \<Rightarrow> bool" where "no_render_fails p = False"
definition share_created :: "int option \<Rightarrow> string + string" where
  "share_created sz = Inr ''/volumes/_nogroup/share-1''"

text \<open>A leader on which every external call succeeds and which has seen the latch set.\<close>

definition leader_world :: world where
  "leader_world =
     \<lparr>app_name = ''ceph-nfs'', hostname = ''nfs-0'', config = Map.empty,
      broker_available = True, pools_available = True, is_leader = True,
      pool_initialised = True, hacluster_related = False, ingress_address = ''10.0.0.10'',
      exit_code = all_succeed, tmp_name = ''/tmp/tmpq1w2e3'', mkdir_fails = False,
      render_fails = no_render_fails, bluestore_compression = Inr [],
      action_params = [''size'' \<mapsto> 10], ganesha_create_share = share_created\<rparr>"

definition follower_world :: world where
  "follower_world = leader_world\<lparr>is_leader := False\<rparr>"

definition failing_world :: world where
  "failing_world = leader_world\<lparr>exit_code := all_fail\<rparr>"

definition counter_fails_world :: world where
  "counter_fails_world = leader_world\<lparr>exit_code := counter_put_fails\<rparr>"

definition restart_fails_world :: world where
  "restart_fails_world = leader_world\<lparr>exit_code := restart_fails\<rparr>"

definition not_ready_world :: world where
  "not_ready_world = leader_world\<lparr>broker_available := False, pools_available := False,
     pool_initialised := False\<rparr>"

definition settled_stored :: stored_state where
  "settled_stored = \<lparr>is_started = True, is_cluster_setup = True\<rparr>"

section \<open>Auxiliary facts\<close>

lemmas handler_defs = start_def act_def check_call_def except_CalledProcessError_def
  setup_failed_def
lemmas const_defs = CEPH_CONFIG_PATH_def GANESHA_CONFIG_PATH_def CEPH_GANESHA_CONFIG_PATH_def
  CEPH_CONF_def GANESHA_KEYRING_def GANESHA_CONF_def RESTART_MAP_keys_def
lemmas cmd_defs = grace_cmd_def rados_put_cmd_def put_index_cmd_def put_counter_cmd_def
  restart_cmd_def reload_cmd_def
lemmas world_defs = leader_world_def follower_world_def failing_world_def
  counter_fails_world_def restart_fails_world_def not_ready_world_def settled_stored_def
  default_stored_def all_succeed_def all_fail_def counter_put_fails_def restart_fails_def
  no_render_fails_def share_created_def

subsection \<open>The outcomes of \<open>setup_ganesha\<close>, case by case\<close>

lemma setup_ganesha_join_failed:
  assumes "\<not> joined w s"
  shows "setup_ganesha w s =
    \<lparr>stored = s, trace = [CheckCall (grace_cmd w ''add'')],
     raised = Some (CalledProcessError (exit_code w (grace_cmd w ''add'')) (grace_cmd w ''add''))\<rparr>"
  using assms by (simp add: setup_ganesha_def joined_def handler_defs Let_def)

lemma setup_ganesha_not_leader:
  assumes "joined w s" "\<not> is_leader w"
  shows "setup_ganesha w s =
    \<lparr>stored = s\<lparr>is_cluster_setup := True\<rparr>, trace = join_calls w s, raised = None\<rparr>"
  using assms by (auto simp add: setup_ganesha_def joined_def join_calls_def handler_defs Let_def)

lemma setup_ganesha_index_failed:
  assumes "joined w s" "is_leader w" "exit_code w (put_index_cmd w) \<noteq> 0"
  shows "setup_ganesha w s =
    \<lparr>stored = s\<lparr>is_cluster_setup := True\<rparr>,
     trace = join_calls w s @ [CheckCall (put_index_cmd w),
        LogError ''Failed to setup ganesha index object'', Defer],
     raised = None\<rparr>"
  using assms by (auto simp add: setup_ganesha_def joined_def join_calls_def handler_defs Let_def)

lemma setup_ganesha_counter_failed:
  assumes "joined w s" "is_leader w" "exit_code w (put_index_cmd w) = 0"
    "exit_code w (put_counter_cmd w) \<noteq> 0"
  shows "setup_ganesha w s =
    \<lparr>stored = s\<lparr>is_cluster_setup := True\<rparr>,
     trace = join_calls w s @ [CheckCall (put_index_cmd w), TmpWrite (tmp_name w) ''1000'',
        CheckCall (put_counter_cmd w),
        LogError ''Failed to setup ganesha index object'', Defer],
     raised = None\<rparr>"
  using assms by (auto simp add: setup_ganesha_def joined_def join_calls_def handler_defs Let_def)

lemma setup_ganesha_bootstrapped:
  assumes "joined w s" "is_leader w" "exit_code w (put_index_cmd w) = 0"
    "exit_code w (put_counter_cmd w) = 0"
  shows "setup_ganesha w s =
    \<lparr>stored = s\<lparr>is_cluster_setup := True\<rparr>,
     trace = join_calls w s @ [CheckCall (put_index_cmd w), TmpWrite (tmp_name w) ''1000'',
        CheckCall (put_counter_cmd w), PeersInitialisedPool],
     raised = None\<rparr>"
  using assms by (auto simp add: setup_ganesha_def joined_def join_calls_def handler_defs Let_def)

subsection \<open>No handler reads the latch\<close>

lemma render_configs_latch:
  "render_configs (w\<lparr>pool_initialised := b\<rparr>) ks r = render_configs w ks r"
  by (induction ks arbitrary: r) (simp_all add: Let_def)

lemma cmd_latch:
  "grace_cmd (w\<lparr>pool_initialised := b\<rparr>) v = grace_cmd w v"
  "put_index_cmd (w\<lparr>pool_initialised := b\<rparr>) = put_index_cmd w"
  "put_counter_cmd (w\<lparr>pool_initialised := b\<rparr>) = put_counter_cmd w"
  "pool_name (w\<lparr>pool_initialised := b\<rparr>) = pool_name w"
  "client_name (w\<lparr>pool_initialised := b\<rparr>) = client_name w"
  "config_get (w\<lparr>pool_initialised := b\<rparr>) k d = config_get w k d"
  "access_address (w\<lparr>pool_initialised := b\<rparr>) = access_address w"
  "check_call (w\<lparr>pool_initialised := b\<rparr>) argv r = check_call w argv r"
  by (simp_all add: cmd_defs pool_name_def client_name_def config_get_def access_address_def
        check_call_def Let_def cong: option.case_cong)

lemma run_handler_latch:
  "run_handler h (w\<lparr>pool_initialised := b\<rparr>) s = run_handler h w s"
  by (cases h)
     (simp_all add: request_ceph_pool_def render_config_def setup_ganesha_def
        on_pool_initialised_def on_departing_def on_reload_nonce_def create_share_action_def
        cmd_latch render_configs_latch cong: if_cong sum.case_cong option.case_cong)

lemma run_handlers_latch:
  "run_handlers hs (w\<lparr>pool_initialised := b\<rparr>) r = run_handlers hs w r"
  by (induction hs arbitrary: r) (simp_all add: run_handler_latch Let_def)

subsection \<open>Traces\<close>

lemma render_configs_stored [simp]: "stored (render_configs w ks r) = stored r"
  by (induction ks arbitrary: r) (simp_all add: Let_def act_def)

lemma render_configs_trace:
  "a \<in> set (trace (render_configs w ks r)) \<Longrightarrow> a \<in> set (trace r) \<or> is_render a"
proof (induction ks arbitrary: r)
  case Nil
  then show ?case by simp
next
  case (Cons k ks)
  show ?case
  proof (cases "render_fails w k")
    case True
    with Cons.prems show ?thesis by (auto simp add: Let_def act_def)
  next
    case False
    with Cons.prems have "a \<in> set (trace (render_configs w ks (act (Render (basename k) k) r)))"
      by (simp add: Let_def)
    from Cons.IH[OF this] show ?thesis by (auto simp add: act_def)
  qed
qed

lemma act_simps [simp]:
  "trace (act a r) = trace r @ [a]" "stored (act a r) = stored r" "raised (act a r) = raised r"
  by (simp_all add: act_def)

lemma start_simps [simp]:
  "trace (start s) = []" "stored (start s) = s" "raised (start s) = None"
  by (simp_all add: start_def)

lemma render_config_trace:
  assumes "a \<in> set (trace (render_config w s))"
  shows "is_render a \<or> a \<in> {LogInfo ''Defering setup'', Defer, Mkdir CEPH_GANESHA_CONFIG_PATH,
     LogInfo ''Rendering config'', LogInfo ''Setting started state'', UpdateStatus,
     LogInfo ''on_pools_available: status updated''}"
  using assms
  by (auto simp add: render_config_def Let_def split: if_splits dest!: render_configs_trace)

lemma render_config_no_bootstrap: "\<not> attempts_bootstrap w (render_config w s)"
  by (auto simp add: attempts_bootstrap_def dest!: render_config_trace)

lemma check_call_simps [simp]:
  "trace (check_call w argv r) = trace r @ [CheckCall argv]"
  "stored (check_call w argv r) = stored r"
  "raised (check_call w argv r) =
     (if exit_code w argv = 0 then raised r
      else Some (CalledProcessError (exit_code w argv) argv))"
  by (simp_all add: check_call_def Let_def)

lemma request_ceph_pool_no_bootstrap: "\<not> attempts_bootstrap w (request_ceph_pool w s)"
  by (simp add: attempts_bootstrap_def request_ceph_pool_def Let_def split: sum.split)

lemma on_pool_initialised_no_bootstrap: "\<not> attempts_bootstrap w (on_pool_initialised w s)"
  by (simp add: attempts_bootstrap_def on_pool_initialised_def except_CalledProcessError_def
        cmd_defs Let_def)

lemma on_departing_no_bootstrap: "\<not> attempts_bootstrap w (on_departing w s)"
  by (simp add: attempts_bootstrap_def on_departing_def cmd_defs Let_def)

lemma on_reload_nonce_no_bootstrap: "\<not> attempts_bootstrap w (on_reload_nonce w s)"
  by (simp add: attempts_bootstrap_def on_reload_nonce_def)

lemma create_share_action_no_bootstrap: "\<not> attempts_bootstrap w (create_share_action w s)"
  by (simp add: attempts_bootstrap_def create_share_action_def Let_def split: sum.split)

lemma setup_ganesha_not_leader_no_bootstrap:
  "\<not> is_leader w \<Longrightarrow> \<not> attempts_bootstrap w (setup_ganesha w s)"
  by (cases "joined w s")
     (simp_all add: attempts_bootstrap_def setup_ganesha_join_failed setup_ganesha_not_leader
        join_calls_def cmd_defs)

lemma run_handlers_trace:
  "a \<in> set (trace (run_handlers hs w r)) \<Longrightarrow>
     a \<in> set (trace r) \<or> (\<exists>h \<in> set hs. \<exists>s'. a \<in> set (trace (run_handler h w s')))"
proof (induction hs arbitrary: r)
  case Nil
  then show ?case by simp
next
  case (Cons h hs)
  show ?case
  proof (cases "raised r = None")
    case False
    with Cons.prems show ?thesis by simp
  next
    case True
    let ?r' = "run_handler h w (stored r)"
    let ?r'' = "\<lparr>stored = stored ?r', trace = trace r @ trace ?r', raised = raised ?r'\<rparr>"
    from Cons.prems True have "a \<in> set (trace (run_handlers hs w ?r''))"
      by (simp add: Let_def)
    from Cons.IH[OF this] show ?thesis by auto
  qed
qed

lemma handler_attempts_bootstrap:
  assumes "attempts_bootstrap w (run_handler h w s')"
  shows "h = SetupGanesha \<and> is_leader w"
  using assms request_ceph_pool_no_bootstrap[of w s'] render_config_no_bootstrap[of w s']
    on_pool_initialised_no_bootstrap[of w s'] on_departing_no_bootstrap[of w s']
    on_reload_nonce_no_bootstrap[of w s'] create_share_action_no_bootstrap[of w s']
    setup_ganesha_not_leader_no_bootstrap[of w s']
  by (cases h) auto

lemma deliver_attempts_bootstrap:
  assumes "attempts_bootstrap w (deliver f w s)"
  shows "f = PoolsAvailable \<and> is_leader w"
proof -
  from assms obtain a where a: "a = CheckCall (put_index_cmd w) \<or> a = CheckCall (put_counter_cmd w)"
    and "a \<in> set (trace (run_handlers (observers f) w (start s)))"
    by (auto simp add: attempts_bootstrap_def deliver_def)
  from run_handlers_trace[OF this(2)] obtain h s'
    where h: "h \<in> set (observers f)" and "a \<in> set (trace (run_handler h w s'))"
    by auto
  with a have "attempts_bootstrap w (run_handler h w s')"
    by (auto simp add: attempts_bootstrap_def)
  from handler_attempts_bootstrap[OF this] have "h = SetupGanesha" and l: "is_leader w"
    by simp_all
  with h have "f = PoolsAvailable" by (cases f) simp_all
  with l show ?thesis by simp
qed

lemma setup_ganesha_leader_attempts:
  assumes "is_leader w" "joined w s"
  shows "CheckCall (put_index_cmd w) \<in> set (trace (setup_ganesha w s))"
proof (cases "exit_code w (put_index_cmd w) = 0")
  case False
  with assms show ?thesis by (simp add: setup_ganesha_index_failed)
next
  case True
  with assms show ?thesis
    by (cases "exit_code w (put_counter_cmd w) = 0")
       (simp_all add: setup_ganesha_counter_failed setup_ganesha_bootstrapped)
qed

lemma deliver_pools_available_leader:
  "deliver PoolsAvailable leader_world settled_stored =
     \<lparr>stored = settled_stored,
      trace = [Mkdir ''/etc/ceph/ganesha'', LogInfo ''Rendering config'',
        Render ''ganesha.conf'' ''/etc/ganesha/ganesha.conf'',
        Render ''ceph.conf'' ''/etc/ceph/ceph.conf'',
        Render ''ceph.keyring'' ''/etc/ceph/ganesha/ceph.keyring'',
        LogInfo ''Setting started state'', UpdateStatus,
        LogInfo ''on_pools_available: status updated'',
        CheckCall [''rados'', ''-p'', ''ceph-nfs'', ''-c'', ''/etc/ceph/ceph.conf'',
          ''--id'', ''ceph-nfs'', ''put'', ''ganesha-export-index'', ''/dev/null''],
        TmpWrite ''/tmp/tmpq1w2e3'' ''1000'',
        CheckCall [''rados'', ''-p'', ''ceph-nfs'', ''-c'', ''/etc/ceph/ceph.conf'',
          ''--id'', ''ceph-nfs'', ''put'', ''ganesha-export-counter'', ''/tmp/tmpq1w2e3''],
        PeersInitialisedPool],
      raised = None\<rparr>"
  by (simp add: deliver_def render_config_def setup_ganesha_def handler_defs const_defs
        cmd_defs world_defs basename_def pool_name_def client_name_def Let_def)

lemma occurs_before_append:
  "y \<notin> set pre \<Longrightarrow> x \<notin> set pre \<Longrightarrow> occurs_before x y (pre @ xs) = occurs_before x y xs"
  by (induction pre) auto

lemma join_calls_no_bootstrap:
  "CheckCall (put_index_cmd w) \<notin> set (join_calls w s)"
  "CheckCall (put_counter_cmd w) \<notin> set (join_calls w s)"
  "TmpWrite n c \<notin> set (join_calls w s)"
  "PeersInitialisedPool \<notin> set (join_calls w s)"
  "Defer \<notin> set (join_calls w s)"
  by (simp_all add: join_calls_def cmd_defs)

lemma put_cmds_differ: "put_index_cmd w \<noteq> put_counter_cmd w"
  by (simp add: cmd_defs)

section \<open>The claims\<close>

subsection \<open>C1: what guards the leader-only bootstrap\<close>

text \<open>
  C1 (as amended). The bootstrap is guarded by leadership and by the grace join, not by the
  latch \<open>pool_initialised\<close>: delivering a fact has the same outcome whether the latch is
  true or false; a delivered fact leads to a bootstrap write only if it is pools-available and
  the unit is the leader; and on a leader whose join flag is set or whose join call succeeds,
  \<open>setup_ganesha\<close> issues the index write.
\<close>

theorem bootstrap_guarded_by_leadership_only:
  "deliver f (w\<lparr>pool_initialised := b\<rparr>) s = deliver f w s \<and>
   (attempts_bootstrap w (deliver f w s) \<longrightarrow> f = PoolsAvailable \<and> is_leader w) \<and>
   (is_leader w \<and> joined w s \<longrightarrow> CheckCall (put_index_cmd w) \<in> set (trace (setup_ganesha w s)))"
  using deliver_attempts_bootstrap[of w f s] setup_ganesha_leader_attempts[of w s]
  by (simp add: deliver_def run_handlers_latch)

text \<open>
  A leader that has seen the latch true and holds both flags still issues both bootstrap
  writes when pools-available is delivered.
\<close>

theorem latch_does_not_guard_bootstrap:
  "pool_initialised leader_world \<and>
   attempts_bootstrap leader_world (deliver PoolsAvailable leader_world settled_stored)"
  by (simp add: deliver_pools_available_leader attempts_bootstrap_def)
     (simp add: leader_world_def cmd_defs pool_name_def client_name_def const_defs)

theorem bootstrap_guarded_by_leadership_only_witness:
  "attempts_bootstrap leader_world (deliver PoolsAvailable leader_world settled_stored) \<and>
   is_leader leader_world \<and> joined leader_world settled_stored \<and>
   CheckCall (put_index_cmd leader_world) \<in> set (trace (setup_ganesha leader_world settled_stored))"
proof -
  have a: "attempts_bootstrap leader_world (deliver PoolsAvailable leader_world settled_stored)"
    by (simp add: deliver_pools_available_leader attempts_bootstrap_def)
       (simp add: leader_world_def cmd_defs pool_name_def client_name_def const_defs)
  have j: "joined leader_world settled_stored"
    by (simp add: joined_def settled_stored_def)
  from a j bootstrap_guarded_by_leadership_only[where f = PoolsAvailable and w = leader_world
      and b = True and s = settled_stored]
  show ?thesis by simp
qed

subsection \<open>C2: leaving the grace membership\<close>

text \<open>
  C2 (as amended). Whatever the value of \<open>is_cluster_setup\<close>, \<open>on_departing\<close> issues the
  grace-removal call and never defers. When the call succeeds the flag is false afterwards.
  When it fails, \<open>CalledProcessError\<close> leaves the handler and the stored flags are as they
  were.
\<close>

theorem departing_leave:
  "CheckCall (grace_cmd w ''remove'') \<in> set (trace (on_departing w s)) \<and>
   \<not> deferred (on_departing w s) \<and>
   (exit_code w (grace_cmd w ''remove'') = 0 \<longrightarrow>
      on_departing w s =
        \<lparr>stored = s\<lparr>is_cluster_setup := False\<rparr>,
         trace = [CheckCall (grace_cmd w ''remove'')], raised = None\<rparr>) \<and>
   (exit_code w (grace_cmd w ''remove'') \<noteq> 0 \<longrightarrow>
      on_departing w s =
        \<lparr>stored = s, trace = [CheckCall (grace_cmd w ''remove'')],
         raised = Some (CalledProcessError (exit_code w (grace_cmd w ''remove''))
                          (grace_cmd w ''remove''))\<rparr>)"
  by (simp add: on_departing_def deferred_def handler_defs Let_def)

text \<open>
  With the flag set and a failing removal, the flag is still set after the handler.
\<close>

theorem departing_failure_keeps_flag:
  "exit_code failing_world (grace_cmd failing_world ''remove'') \<noteq> 0 \<and>
   is_cluster_setup (stored (on_departing failing_world settled_stored))"
  by (simp add: on_departing_def world_defs Let_def)

theorem departing_leave_witness:
  "exit_code leader_world (grace_cmd leader_world ''remove'') = 0 \<and>
   exit_code failing_world (grace_cmd failing_world ''remove'') \<noteq> 0 \<and>
   \<not> is_cluster_setup (stored (on_departing leader_world settled_stored)) \<and>
   stored (on_departing failing_world settled_stored) = settled_stored"
proof -
  have ok: "exit_code leader_world (grace_cmd leader_world ''remove'') = 0"
    by (simp add: world_defs)
  have bad: "exit_code failing_world (grace_cmd failing_world ''remove'') \<noteq> 0"
    by (simp add: world_defs)
  from ok bad departing_leave[of leader_world settled_stored]
    departing_leave[of failing_world settled_stored]
  show ?thesis by simp
qed

subsection \<open>C3: joining the grace membership\<close>

text \<open>
  C3 (as amended). If \<open>is_cluster_setup\<close> is already true, \<open>setup_ganesha\<close> issues no join call
  and the flag stays true. If it is false and the join call succeeds, the call is the first
  thing the handler does and the flag is true afterwards. If it is false and the join call
  fails, \<open>CalledProcessError\<close> leaves the handler, nothing else is done (in particular the
  event is not deferred) and the stored flags are as they were, so the flag is still false.
\<close>

theorem grace_join:
  "(is_cluster_setup s \<longrightarrow>
      CheckCall (grace_cmd w ''add'') \<notin> set (trace (setup_ganesha w s)) \<and>
      is_cluster_setup (stored (setup_ganesha w s))) \<and>
   (\<not> is_cluster_setup s \<and> exit_code w (grace_cmd w ''add'') = 0 \<longrightarrow>
      hd (trace (setup_ganesha w s)) = CheckCall (grace_cmd w ''add'') \<and>
      is_cluster_setup (stored (setup_ganesha w s))) \<and>
   (\<not> is_cluster_setup s \<and> exit_code w (grace_cmd w ''add'') \<noteq> 0 \<longrightarrow>
      setup_ganesha w s =
        \<lparr>stored = s, trace = [CheckCall (grace_cmd w ''add'')],
         raised = Some (CalledProcessError (exit_code w (grace_cmd w ''add''))
                          (grace_cmd w ''add''))\<rparr>)"
  by (simp add: setup_ganesha_def except_CalledProcessError_def setup_failed_def cmd_defs
        start_def Let_def)

text \<open>
  A failed join on a fresh unit does not defer the event.
\<close>

theorem join_failure_not_deferred:
  "\<not> is_cluster_setup default_stored \<and>
   exit_code failing_world (grace_cmd failing_world ''add'') \<noteq> 0 \<and>
   \<not> deferred (setup_ganesha failing_world default_stored)"
  by (simp add: setup_ganesha_def deferred_def world_defs Let_def)

theorem grace_join_witness:
  "is_cluster_setup settled_stored \<and>
   CheckCall (grace_cmd leader_world ''add'') \<notin> set (trace (setup_ganesha leader_world settled_stored)) \<and>
   \<not> is_cluster_setup default_stored \<and>
   exit_code leader_world (grace_cmd leader_world ''add'') = 0 \<and>
   is_cluster_setup (stored (setup_ganesha leader_world default_stored)) \<and>
   exit_code failing_world (grace_cmd failing_world ''add'') \<noteq> 0 \<and>
   stored (setup_ganesha failing_world default_stored) = default_stored"
proof -
  have a: "is_cluster_setup settled_stored" "\<not> is_cluster_setup default_stored"
    by (simp_all add: world_defs)
  have b: "exit_code leader_world (grace_cmd leader_world ''add'') = 0"
    "exit_code failing_world (grace_cmd failing_world ''add'') \<noteq> 0"
    by (simp_all add: world_defs)
  from a b grace_join[of settled_stored leader_world] grace_join[of default_stored leader_world]
    grace_join[of default_stored failing_world]
  show ?thesis by simp
qed

subsection \<open>C4: the order of the bootstrap writes\<close>

text \<open>
  C4. When the leader bootstraps and both writes succeed, the handler issues, after the join
  part, the put of \<open>ganesha-export-index\<close> from \<open>/dev/null\<close>, the write of \<open>1000\<close> to the
  temporary file, the put of \<open>ganesha-export-counter\<close> from that file, and the call that sets
  the latch, in this order. In every run, a counter put implies that the index put came first
  and exited with status 0 and that \<open>1000\<close> was written to the file before; the latch call
  implies that both puts exited with status 0 and that the counter put came before it.
\<close>

theorem bootstrap_order:
  "(is_leader w \<and> joined w s \<and> exit_code w (put_index_cmd w) = 0 \<and>
      exit_code w (put_counter_cmd w) = 0 \<longrightarrow>
      trace (setup_ganesha w s) = join_calls w s @
        [CheckCall (put_index_cmd w), TmpWrite (tmp_name w) ''1000'',
         CheckCall (put_counter_cmd w), PeersInitialisedPool]) \<and>
   (CheckCall (put_counter_cmd w) \<in> set (trace (setup_ganesha w s)) \<longrightarrow>
      exit_code w (put_index_cmd w) = 0 \<and>
      occurs_before (CheckCall (put_index_cmd w)) (CheckCall (put_counter_cmd w))
        (trace (setup_ganesha w s)) \<and>
      occurs_before (TmpWrite (tmp_name w) ''1000'') (CheckCall (put_counter_cmd w))
        (trace (setup_ganesha w s))) \<and>
   (PeersInitialisedPool \<in> set (trace (setup_ganesha w s)) \<longrightarrow>
      exit_code w (put_index_cmd w) = 0 \<and> exit_code w (put_counter_cmd w) = 0 \<and>
      occurs_before (CheckCall (put_counter_cmd w)) PeersInitialisedPool
        (trace (setup_ganesha w s))) \<and>
   put_index_cmd w =
     [''rados'', ''-p'', pool_name w, ''-c'', ''/etc/ceph/ceph.conf'', ''--id'', client_name w,
      ''put'', ''ganesha-export-index'', ''/dev/null''] \<and>
   put_counter_cmd w =
     [''rados'', ''-p'', pool_name w, ''-c'', ''/etc/ceph/ceph.conf'', ''--id'', client_name w,
      ''put'', ''ganesha-export-counter'', tmp_name w]"
proof -
  have shape: "put_index_cmd w =
     [''rados'', ''-p'', pool_name w, ''-c'', ''/etc/ceph/ceph.conf'', ''--id'', client_name w,
      ''put'', ''ganesha-export-index'', ''/dev/null'']"
    "put_counter_cmd w =
     [''rados'', ''-p'', pool_name w, ''-c'', ''/etc/ceph/ceph.conf'', ''--id'', client_name w,
      ''put'', ''ganesha-export-counter'', tmp_name w]"
    by (simp_all add: cmd_defs const_defs)
  have "(is_leader w \<and> joined w s \<and> exit_code w (put_index_cmd w) = 0 \<and>
      exit_code w (put_counter_cmd w) = 0 \<longrightarrow>
      trace (setup_ganesha w s) = join_calls w s @
        [CheckCall (put_index_cmd w), TmpWrite (tmp_name w) ''1000'',
         CheckCall (put_counter_cmd w), PeersInitialisedPool]) \<and>
   (CheckCall (put_counter_cmd w) \<in> set (trace (setup_ganesha w s)) \<longrightarrow>
      exit_code w (put_index_cmd w) = 0 \<and>
      occurs_before (CheckCall (put_index_cmd w)) (CheckCall (put_counter_cmd w))
        (trace (setup_ganesha w s)) \<and>
      occurs_before (TmpWrite (tmp_name w) ''1000'') (CheckCall (put_counter_cmd w))
        (trace (setup_ganesha w s))) \<and>
   (PeersInitialisedPool \<in> set (trace (setup_ganesha w s)) \<longrightarrow>
      exit_code w (put_index_cmd w) = 0 \<and> exit_code w (put_counter_cmd w) = 0 \<and>
      occurs_before (CheckCall (put_counter_cmd w)) PeersInitialisedPool
        (trace (setup_ganesha w s)))"
  proof (cases "joined w s")
  case False
  then show ?thesis
    by (simp add: setup_ganesha_join_failed) (simp add: cmd_defs)
next
  case j: True
  show ?thesis
  proof (cases "is_leader w")
    case False
    with j show ?thesis
      by (simp add: setup_ganesha_not_leader join_calls_no_bootstrap)
  next
    case l: True
    show ?thesis
    proof (cases "exit_code w (put_index_cmd w) = 0")
      case False
      with j l show ?thesis
        using put_cmds_differ[of w]
        by (simp add: setup_ganesha_index_failed join_calls_no_bootstrap)
    next
      case i: True
      show ?thesis
      proof (cases "exit_code w (put_counter_cmd w) = 0")
        case False
        with j l i show ?thesis
          using put_cmds_differ[of w]
          by (simp add: setup_ganesha_counter_failed join_calls_no_bootstrap
                occurs_before_append)
      next
        case True
        with j l i show ?thesis
          using put_cmds_differ[of w]
          by (simp add: setup_ganesha_bootstrapped join_calls_no_bootstrap
                occurs_before_append)
      qed
    qed
  qed
qed
  with shape show ?thesis by blast
qed

theorem bootstrap_order_witness:
  "is_leader leader_world \<and> joined leader_world default_stored \<and>
   exit_code leader_world (put_index_cmd leader_world) = 0 \<and>
   exit_code leader_world (put_counter_cmd leader_world) = 0 \<and>
   CheckCall (put_counter_cmd leader_world) \<in> set (trace (setup_ganesha leader_world default_stored)) \<and>
   PeersInitialisedPool \<in> set (trace (setup_ganesha leader_world default_stored)) \<and>
   occurs_before (CheckCall (put_index_cmd leader_world)) (CheckCall (put_counter_cmd leader_world))
     (trace (setup_ganesha leader_world default_stored)) \<and>
   occurs_before (CheckCall (put_counter_cmd leader_world)) PeersInitialisedPool
     (trace (setup_ganesha leader_world default_stored))"
proof -
  have h: "is_leader leader_world" "joined leader_world default_stored"
    "exit_code leader_world (put_index_cmd leader_world) = 0"
    "exit_code leader_world (put_counter_cmd leader_world) = 0"
    by (simp_all add: joined_def world_defs)
  from h bootstrap_order[of leader_world default_stored]
  show ?thesis
    by (simp add: join_calls_def default_stored_def leader_world_def pool_name_def
          client_name_def grace_cmd_def const_defs)
qed

subsection \<open>C5: a failed bootstrap write\<close>

text \<open>
  C5. On a leader that got past the join, if the index put or the counter put fails, the
  event is deferred, no exception leaves the handler, the latch call is not made,
  \<open>is_started\<close> is as it was, \<open>is_cluster_setup\<close> is what the join left (true), and the
  stored flags are those the handler would have left had
  it returned right before the bootstrap (the return of a non-leader); for a unit whose join
  flag was already set they are the flags at entry.
\<close>

theorem bootstrap_failure_deferred:
  assumes "is_leader w" and "joined w s"
    and "exit_code w (put_index_cmd w) \<noteq> 0 \<or> exit_code w (put_counter_cmd w) \<noteq> 0"
  shows "deferred (setup_ganesha w s) \<and>
    raised (setup_ganesha w s) = None \<and>
    PeersInitialisedPool \<notin> set (trace (setup_ganesha w s)) \<and>
    is_started (stored (setup_ganesha w s)) = is_started s \<and>
    is_cluster_setup (stored (setup_ganesha w s)) \<and>
    stored (setup_ganesha w s) = stored (setup_ganesha (w\<lparr>is_leader := False\<rparr>) s) \<and>
    (is_cluster_setup s \<longrightarrow> stored (setup_ganesha w s) = s)"
proof -
  have "grace_cmd (w\<lparr>is_leader := False\<rparr>) ''add'' = grace_cmd w ''add''"
    by (simp add: grace_cmd_def pool_name_def client_name_def cong: option.case_cong)
  with assms(2) have "joined (w\<lparr>is_leader := False\<rparr>) s"
    by (simp add: joined_def)
  then have nl: "stored (setup_ganesha (w\<lparr>is_leader := False\<rparr>) s) = s\<lparr>is_cluster_setup := True\<rparr>"
    by (simp add: setup_ganesha_not_leader)
  show ?thesis
  proof (cases "exit_code w (put_index_cmd w) = 0")
    case False
    with assms nl show ?thesis
      by (simp add: setup_ganesha_index_failed deferred_def join_calls_no_bootstrap)
  next
    case True
    with assms nl show ?thesis
      by (simp add: setup_ganesha_counter_failed deferred_def join_calls_no_bootstrap)
  qed
qed

theorem bootstrap_failure_deferred_witness:
  "is_leader counter_fails_world \<and> joined counter_fails_world default_stored \<and>
   exit_code counter_fails_world (put_counter_cmd counter_fails_world) \<noteq> 0 \<and>
   deferred (setup_ganesha counter_fails_world default_stored) \<and>
   PeersInitialisedPool \<notin> set (trace (setup_ganesha counter_fails_world default_stored)) \<and>
   \<not> is_started (stored (setup_ganesha counter_fails_world default_stored)) \<and>
   is_cluster_setup settled_stored \<and> joined counter_fails_world settled_stored \<and>
   stored (setup_ganesha counter_fails_world settled_stored) = settled_stored"
proof -
  have h: "is_leader counter_fails_world" "joined counter_fails_world default_stored"
    "exit_code counter_fails_world (put_counter_cmd counter_fails_world) \<noteq> 0"
    "is_cluster_setup settled_stored" "joined counter_fails_world settled_stored"
    by (simp_all add: joined_def world_defs cmd_defs pool_name_def client_name_def const_defs)
  from h(3) have d: "exit_code counter_fails_world (put_index_cmd counter_fails_world) \<noteq> 0 \<or>
      exit_code counter_fails_world (put_counter_cmd counter_fails_world) \<noteq> 0"
    by simp
  have "\<not> is_started default_stored" by (simp add: default_stored_def)
  with h bootstrap_failure_deferred[OF h(1) h(2) d] bootstrap_failure_deferred[OF h(1) h(5) d]
  show ?thesis by blast
qed

subsection \<open>C6: the gate of the config renderer\<close>

text \<open>
  C6. While the pools are not available \<open>render_config\<close> logs at info level, defers the
  event and changes nothing. When the pools are available and neither the directory creation
  nor a render raises, it renders the three files and sets \<open>is_started\<close>; whenever it ends
  without an exception with the pools available, \<open>is_started\<close> is true and the event is not
  deferred; whenever an exception leaves it, the stored flags are as they were.
\<close>

theorem render_config_gate:
  "(\<not> pools_available w \<longrightarrow>
      render_config w s =
        \<lparr>stored = s, trace = [LogInfo ''Defering setup'', Defer], raised = None\<rparr>) \<and>
   (pools_available w \<and> \<not> mkdir_fails w \<and> \<not> render_fails w GANESHA_CONF \<and>
    \<not> render_fails w CEPH_CONF \<and> \<not> render_fails w GANESHA_KEYRING \<longrightarrow>
      render_config w s =
        \<lparr>stored = s\<lparr>is_started := True\<rparr>,
         trace = [Mkdir CEPH_GANESHA_CONFIG_PATH, LogInfo ''Rendering config'',
           Render ''ganesha.conf'' GANESHA_CONF, Render ''ceph.conf'' CEPH_CONF,
           Render ''ceph.keyring'' GANESHA_KEYRING,
           LogInfo ''Setting started state'', UpdateStatus,
           LogInfo ''on_pools_available: status updated''],
         raised = None\<rparr>) \<and>
   (pools_available w \<and> raised (render_config w s) = None \<longrightarrow>
      is_started (stored (render_config w s)) \<and> \<not> deferred (render_config w s)) \<and>
   (raised (render_config w s) \<noteq> None \<longrightarrow> stored (render_config w s) = s)"
proof -
  have b: "basename GANESHA_CONF = ''ganesha.conf''" "basename CEPH_CONF = ''ceph.conf''"
    "basename GANESHA_KEYRING = ''ceph.keyring''"
    by (simp_all add: basename_def const_defs)
  have 1: "\<not> pools_available w \<longrightarrow>
      render_config w s =
        \<lparr>stored = s, trace = [LogInfo ''Defering setup'', Defer], raised = None\<rparr>"
    by (simp add: render_config_def act_def start_def)
  have 2: "pools_available w \<and> \<not> mkdir_fails w \<and> \<not> render_fails w GANESHA_CONF \<and>
    \<not> render_fails w CEPH_CONF \<and> \<not> render_fails w GANESHA_KEYRING \<longrightarrow>
      render_config w s =
        \<lparr>stored = s\<lparr>is_started := True\<rparr>,
         trace = [Mkdir CEPH_GANESHA_CONFIG_PATH, LogInfo ''Rendering config'',
           Render ''ganesha.conf'' GANESHA_CONF, Render ''ceph.conf'' CEPH_CONF,
           Render ''ceph.keyring'' GANESHA_KEYRING,
           LogInfo ''Setting started state'', UpdateStatus,
           LogInfo ''on_pools_available: status updated''],
         raised = None\<rparr>"
    by (simp add: render_config_def RESTART_MAP_keys_def b act_def start_def Let_def)
  have 3: "pools_available w \<and> raised (render_config w s) = None \<longrightarrow>
      is_started (stored (render_config w s)) \<and> \<not> deferred (render_config w s)"
    by (auto simp add: render_config_def deferred_def Let_def split: if_splits
          dest!: render_configs_trace)
  have 4: "raised (render_config w s) \<noteq> None \<longrightarrow> stored (render_config w s) = s"
    by (simp add: render_config_def Let_def)
  from 1 2 3 4 show ?thesis by blast
qed

theorem render_config_gate_witness:
  "\<not> pools_available not_ready_world \<and>
   render_config not_ready_world default_stored =
     \<lparr>stored = default_stored, trace = [LogInfo ''Defering setup'', Defer], raised = None\<rparr> \<and>
   pools_available leader_world \<and> raised (render_config leader_world default_stored) = None \<and>
   is_started (stored (render_config leader_world default_stored)) \<and>
   raised (render_config (leader_world\<lparr>mkdir_fails := True\<rparr>) default_stored) \<noteq> None \<and>
   \<not> is_started (stored (render_config (leader_world\<lparr>mkdir_fails := True\<rparr>) default_stored))"
proof -
  have h: "\<not> pools_available not_ready_world" "pools_available leader_world"
    "\<not> mkdir_fails leader_world" "\<not> render_fails leader_world GANESHA_CONF"
    "\<not> render_fails leader_world CEPH_CONF" "\<not> render_fails leader_world GANESHA_KEYRING"
    "\<not> is_started default_stored"
    by (simp_all add: world_defs)
  have m: "raised (render_config (leader_world\<lparr>mkdir_fails := True\<rparr>) default_stored) \<noteq> None"
    by (simp add: render_config_def world_defs Let_def)
  from h m render_config_gate[of not_ready_world default_stored]
    render_config_gate[of leader_world default_stored]
    render_config_gate[of "leader_world\<lparr>mkdir_fails := True\<rparr>" default_stored]
  show ?thesis by simp
qed

subsection \<open>C7: the reload nonce\<close>

text \<open>
  C7 (as amended). On a reload-nonce change the unit logs at info level and sends
  \<open>SIGHUP\<close> to \<open>ganesha.nfsd\<close> with \<open>killall\<close>, dropping the exit status: a reload signal
  and no service restart. It renders nothing and leaves the stored flags alone.
\<close>

theorem reload_nonce_signals_reload:
  "deliver ReloadNonce w s =
     \<lparr>stored = s,
      trace = [LogInfo ''Reloading Ganesha after nonce triggered reload'',
               Call [''killall'', ''-HUP'', ''ganesha.nfsd'']],
      raised = None\<rparr>"
  by (simp add: deliver_def on_reload_nonce_def reload_cmd_def act_def start_def)

text \<open>
  \<open>render_config\<close> renders; the delivery of a reload-nonce change does not.
\<close>

theorem reload_nonce_does_not_render:
  "renders (render_config leader_world settled_stored) \<and>
   \<not> renders (deliver ReloadNonce leader_world settled_stored)"
  by (simp add: renders_def deliver_def on_reload_nonce_def render_config_def
        RESTART_MAP_keys_def world_defs Let_def)

subsection \<open>C8: the create-share action\<close>

text \<open>
  C8. On a unit that is not the leader the action fails with the message
  "Share creation needs to be run from the application leader", calls nothing else and
  leaves the stored flags alone. On the leader, when \<open>GaneshaNfs.create_share\<close> returns an
  export path, the action creates the share with the size parameter, calls
  \<open>peers.trigger_reload\<close> and sets the results \<open>message\<close> ("Share created"), \<open>path\<close> (the
  export path) and \<open>ip\<close> (the access address).
\<close>

theorem create_share_leader_gate:
  "(\<not> is_leader w \<longrightarrow>
      create_share_action w s =
        \<lparr>stored = s,
         trace = [EventFail ''Share creation needs to be run from the application leader''],
         raised = None\<rparr>) \<and>
   (is_leader w \<and> ganesha_create_share w (action_params w ''size'') = Inr export_path \<longrightarrow>
      create_share_action w s =
        \<lparr>stored = s,
         trace = [GaneshaCreateShare (client_name w) (pool_name w) (action_params w ''size''),
                  PeersTriggerReload,
                  SetResults [(''message'', Some ''Share created''),
                              (''path'', Some export_path),
                              (''ip'', access_address w)]],
         raised = None\<rparr>)"
  by (simp add: create_share_action_def act_def start_def Let_def)

theorem create_share_leader_gate_witness:
  "\<not> is_leader follower_world \<and>
   trace (create_share_action follower_world settled_stored) =
     [EventFail ''Share creation needs to be run from the application leader''] \<and>
   stored (create_share_action follower_world settled_stored) = settled_stored \<and>
   is_leader leader_world \<and>
   ganesha_create_share leader_world (action_params leader_world ''size'') =
     Inr ''/volumes/_nogroup/share-1'' \<and>
   trace (create_share_action leader_world settled_stored) =
     [GaneshaCreateShare ''ceph-nfs'' ''ceph-nfs'' (Some 10), PeersTriggerReload,
      SetResults [(''message'', Some ''Share created''),
                  (''path'', Some ''/volumes/_nogroup/share-1''),
                  (''ip'', Some ''10.0.0.10'')]]"
proof -
  have h: "\<not> is_leader follower_world" "is_leader leader_world"
    "ganesha_create_share leader_world (action_params leader_world ''size'') =
       Inr ''/volumes/_nogroup/share-1''"
    by (simp_all add: world_defs)
  from h create_share_leader_gate[of follower_world settled_stored]
    create_share_leader_gate[where w = leader_world and s = settled_stored
      and export_path = "''/volumes/_nogroup/share-1''"]
  show ?thesis
    by (simp add: world_defs client_name_def pool_name_def access_address_def)
qed

subsection \<open>C9: a failed service restart\<close>

text \<open>
  C9 (as amended). \<open>on_pool_initialised\<close> restarts \<open>nfs-ganesha\<close> once. When the restart
  fails, the handler catches \<open>CalledProcessError\<close>, logs an error and defers the event: the
  failure does not leave the handler, and the handler does not run the command again. The
  function \<open>daemon_reload_and_restart\<close> nested in \<open>render_config\<close> lets a failed restart
  leave as \<open>CalledProcessError\<close> after one attempt.
\<close>

theorem pool_initialised_restart:
  "(exit_code w (restart_cmd ''nfs-ganesha'') = 0 \<longrightarrow>
      on_pool_initialised w s =
        \<lparr>stored = s, trace = [CheckCall [''systemctl'', ''restart'', ''nfs-ganesha'']],
         raised = None\<rparr>) \<and>
   (exit_code w (restart_cmd ''nfs-ganesha'') \<noteq> 0 \<longrightarrow>
      on_pool_initialised w s =
        \<lparr>stored = s,
         trace = [CheckCall [''systemctl'', ''restart'', ''nfs-ganesha''],
                  LogError ''Failed torestart nfs-ganesha'', Defer],
         raised = None\<rparr>) \<and>
   (raised r = None \<and> exit_code w [''systemctl'', ''daemon-reload''] = 0 \<and>
    exit_code w (restart_cmd service_name) \<noteq> 0 \<longrightarrow>
      raised (daemon_reload_and_restart w service_name r) =
        Some (CalledProcessError (exit_code w (restart_cmd service_name))
                (restart_cmd service_name)) \<and>
      trace (daemon_reload_and_restart w service_name r) =
        trace r @ [CheckCall [''systemctl'', ''daemon-reload''],
                   CheckCall [''systemctl'', ''restart'', service_name]])"
  by (simp add: on_pool_initialised_def daemon_reload_and_restart_def
        except_CalledProcessError_def restart_cmd_def check_call_def act_def start_def Let_def)

text \<open>
  A failed restart on delivery of pool-initialised: no exception, and the event deferred.
\<close>

theorem restart_failure_is_deferred:
  "exit_code failing_world (restart_cmd ''nfs-ganesha'') \<noteq> 0 \<and>
   raised (deliver PoolInitialised failing_world settled_stored) = None \<and>
   deferred (deliver PoolInitialised failing_world settled_stored)"
  by (simp add: deliver_def on_pool_initialised_def except_CalledProcessError_def deferred_def
        world_defs Let_def)

theorem pool_initialised_restart_witness:
  "exit_code leader_world (restart_cmd ''nfs-ganesha'') = 0 \<and>
   \<not> deferred (on_pool_initialised leader_world settled_stored) \<and>
   exit_code failing_world (restart_cmd ''nfs-ganesha'') \<noteq> 0 \<and>
   deferred (on_pool_initialised failing_world settled_stored) \<and>
   raised (on_pool_initialised failing_world settled_stored) = None \<and>
   raised (start settled_stored) = None \<and>
   exit_code restart_fails_world [''systemctl'', ''daemon-reload''] = 0 \<and>
   exit_code restart_fails_world (restart_cmd ''nfs-ganesha'') \<noteq> 0 \<and>
   raised (daemon_reload_and_restart restart_fails_world ''nfs-ganesha'' (start settled_stored)) =
     Some (CalledProcessError 1 [''systemctl'', ''restart'', ''nfs-ganesha''])"
proof -
  have h: "exit_code leader_world (restart_cmd ''nfs-ganesha'') = 0"
    "exit_code failing_world (restart_cmd ''nfs-ganesha'') \<noteq> 0"
    "raised (start settled_stored) = None"
    "exit_code restart_fails_world [''systemctl'', ''daemon-reload''] = 0"
    "exit_code restart_fails_world (restart_cmd ''nfs-ganesha'') \<noteq> 0"
    by (simp_all add: world_defs restart_cmd_def)
  from h pool_initialised_restart[where w = leader_world and s = settled_stored
      and r = "start settled_stored" and service_name = "''nfs-ganesha''"]
    pool_initialised_restart[where w = failing_world and s = settled_stored
      and r = "start settled_stored" and service_name = "''nfs-ganesha''"]
    pool_initialised_restart[where w = restart_fails_world and s = settled_stored
      and r = "start settled_stored" and service_name = "''nfs-ganesha''"]
  show ?thesis
    by (simp add: deferred_def restart_cmd_def restart_fails_world_def restart_fails_def
          leader_world_def)
qed

subsection \<open>C10: a dependency that is not ready\<close>

text \<open>
  C10 (as amended). \<open>render_config\<close> defers the event while the pools are not available,
  logging at info level. \<open>request_ceph_pool\<close>, while the broker is not available, logs at
  info level and returns: it requests nothing and does not defer. Neither logs an error.
\<close>

theorem not_ready_handling:
  "(\<not> pools_available w \<longrightarrow>
      render_config w s =
        \<lparr>stored = s, trace = [LogInfo ''Defering setup'', Defer], raised = None\<rparr>) \<and>
   (\<not> broker_available w \<longrightarrow>
      request_ceph_pool w s =
        \<lparr>stored = s, trace = [LogInfo ''Cannot request ceph setup at this time''],
         raised = None\<rparr>)"
  by (simp add: render_config_def request_ceph_pool_def act_def start_def)

text \<open>
  A config-changed fact delivered while the broker is not available is not deferred.
\<close>

theorem broker_not_ready_not_deferred:
  "\<not> broker_available not_ready_world \<and>
   \<not> deferred (deliver ConfigChanged not_ready_world default_stored)"
  by (simp add: deliver_def request_ceph_pool_def deferred_def world_defs)

theorem not_ready_handling_witness:
  "\<not> pools_available not_ready_world \<and> \<not> broker_available not_ready_world \<and>
   deferred (render_config not_ready_world default_stored) \<and>
   trace (request_ceph_pool not_ready_world default_stored) =
     [LogInfo ''Cannot request ceph setup at this time'']"
proof -
  have h: "\<not> pools_available not_ready_world" "\<not> broker_available not_ready_world"
    by (simp_all add: world_defs)
  from h not_ready_handling[of not_ready_world default_stored]
  show ?thesis by (simp add: deferred_def)
qed

end
